theory Spec2Isabelle
  imports Main "HOL-Library.Char_ord"
begin

section \<open>Go library functions used by the server\<close>

subsection \<open>Machine integers and time\<close>

text \<open>
  Go's \<open>int64\<close> arithmetic wraps around. Values are kept as mathematical integers and
  \<open>wrap64\<close> is written wherever the source adds two \<open>int64\<close> values.
\<close>

definition wrap64 :: "int \<Rightarrow> int" where
  "wrap64 x = (x + 2 ^ 63) mod 2 ^ 64 - 2 ^ 63"

text \<open>
  A \<open>time.Time\<close> is represented by its number of nanoseconds since the Unix epoch.
  \<open>time.Unix(sec, 0)\<close> stores \<open>sec + unixToInternal\<close> in an \<open>int64\<close> (seconds since
  year 1), which wraps for seconds close to the end of the \<open>int64\<close> range.
\<close>

type_synonym time = int

definition nanosPerSecond :: int where
  "nanosPerSecond = 1000000000"

definition unixToInternal :: int where
  "unixToInternal = 62135596800"

definition time_Unix :: "int \<Rightarrow> time" where
  "time_Unix sec = (wrap64 (sec + unixToInternal) - unixToInternal) * nanosPerSecond"

definition Unix :: "time \<Rightarrow> int" where
  "Unix t = t div nanosPerSecond"

definition Before :: "time \<Rightarrow> time \<Rightarrow> bool" where
  "Before t u = (t < u)"

definition After :: "time \<Rightarrow> time \<Rightarrow> bool" where
  "After t u = (t > u)"

definition Hour :: int where
  "Hour = 3600 * nanosPerSecond"

definition Add :: "time \<Rightarrow> int \<Rightarrow> time" where
  "Add t d = t + d"

text \<open>The zero value of \<open>time.Time\<close> is January 1 of year 1, 00:00 UTC.\<close>

definition zeroTime :: time where
  "zeroTime = - unixToInternal * nanosPerSecond"

definition IsZero :: "time \<Rightarrow> bool" where
  "IsZero t = (t = zeroTime)"

subsection \<open>Strings\<close>

text \<open>
  \<open>strings.SplitN(s, sep, n)\<close> for a one-character separator: at most \<open>n\<close> pieces, the
  last one being the unsplit remainder; \<open>n = 0\<close> gives no pieces.
\<close>

fun SplitN :: "string \<Rightarrow> char \<Rightarrow> nat \<Rightarrow> string list" where
  "SplitN s c 0 = []"
| "SplitN s c (Suc 0) = [s]"
| "SplitN s c (Suc (Suc n)) =
     (if c \<in> set s
      then takeWhile (\<lambda>x. x \<noteq> c) s # SplitN (tl (dropWhile (\<lambda>x. x \<noteq> c) s)) c (Suc n)
      else [s])"

text \<open>
  \<open>strconv.ParseInt(s, 10, 64)\<close>: an optional sign, then one or more decimal digits;
  a value outside the \<open>int64\<close> range is a range error.
\<close>

datatype NumError = ErrSyntax | ErrRange

definition isDigit :: "char \<Rightarrow> bool" where
  "isDigit c = (CHR ''0'' \<le> c \<and> c \<le> CHR ''9'')"

definition digitVal :: "char \<Rightarrow> nat" where
  "digitVal c = of_char c - of_char CHR ''0''"

definition ParseUint :: "string \<Rightarrow> NumError + nat" where
  "ParseUint s =
     (if s = [] then Inl ErrSyntax
      else if \<not> list_all isDigit s then Inl ErrSyntax
      else Inr (foldl (\<lambda>a c. 10 * a + digitVal c) 0 s))"

definition ParseInt :: "string \<Rightarrow> NumError + int" where
  "ParseInt s =
     (if s = [] then Inl ErrSyntax
      else let neg = (hd s = CHR ''-'');
               s' = (if hd s = CHR ''+'' \<or> hd s = CHR ''-'' then tl s else s)
           in case ParseUint s' of
                Inl e \<Rightarrow> Inl e
              | Inr un \<Rightarrow>
                  if \<not> neg \<and> un \<ge> 2 ^ 63 then Inl ErrRange
                  else if neg \<and> un > 2 ^ 63 then Inl ErrRange
                  else Inr (if neg then - int un else int un))"

text \<open>\<open>%d\<close> of \<open>fmt.Sprintf\<close>: decimal digits, with a minus sign for negative values.\<close>

definition digitChar :: "nat \<Rightarrow> char" where
  "digitChar d = ''0123456789'' ! d"

fun FormatUint :: "nat \<Rightarrow> string" where
  "FormatUint n = (if n < 10 then [digitChar n] else FormatUint (n div 10) @ [digitChar (n mod 10)])"

declare FormatUint.simps [simp del]

definition FormatInt :: "int \<Rightarrow> string" where
  "FormatInt i = (if i < 0 then CHR ''-'' # FormatUint (nat (- i)) else FormatUint (nat i))"

subsection \<open>Keyed hashes\<close>

text \<open>
  The server never inspects the bytes of a digest; it only produces digests and hands them
  on. Digests are therefore kept symbolic: a password records the secret and the message
  it was computed from (\<open>base64.StdEncoding(HMAC-SHA256(secret, message))\<close>), and the
  key of the long-term credential mechanism records its three inputs
  (\<open>turn.GenerateAuthKey\<close>, the MD5 of \<open>username:realm:password\<close>). Two symbolic
  digests are equal exactly when their inputs are: the hash functions are taken to be
  free of collisions. \<open>Plain\<close> is a password that is given as text.
\<close>

datatype password = Plain string | HmacSha256B64 string string

datatype authKey = AuthKey string string password

definition GenerateAuthKey :: "string \<Rightarrow> string \<Rightarrow> password \<Rightarrow> authKey" where
  "GenerateAuthKey username realm pw = AuthKey username realm pw"

section \<open>TURN authentication (internal/turn/auth.go)\<close>

record AuthHandler =
  mode :: string
  secret :: string
  oldSecrets :: "string list"
  ttl :: int
  staticUsers :: "string \<rightharpoonup> string"

definition NewAuthHandler ::
  "string \<Rightarrow> string \<Rightarrow> string list \<Rightarrow> int \<Rightarrow> (string \<rightharpoonup> string) \<Rightarrow> AuthHandler" where
  "NewAuthHandler m s old t users =
     \<lparr>mode = m, secret = s, oldSecrets = old, ttl = t, staticUsers = users\<rparr>"

text \<open>
  The loop over the candidate secrets of \<open>restAuth\<close>: an empty secret is skipped, and
  the body returns the key derived from the first secret that is not empty.
\<close>

fun trySecrets :: "string list \<Rightarrow> string \<Rightarrow> string \<Rightarrow> authKey option" where
  "trySecrets [] username realm = None"
| "trySecrets (s # rest) username realm =
     (if s = [] then trySecrets rest username realm
      else let expectedPassword = HmacSha256B64 s username
           in Some (GenerateAuthKey username realm expectedPassword))"

text \<open>
  \<open>restAuth\<close> at clock reading \<open>now\<close>. The result \<open>None\<close> is the source's
  \<open>(nil, false)\<close>, and \<open>Some key\<close> is \<open>(key, true)\<close>. The source address is only
  logged. The source reads the clock twice, for the two comparisons; the model takes one
  reading for both.
\<close>

definition restAuth :: "AuthHandler \<Rightarrow> time \<Rightarrow> string \<Rightarrow> string \<Rightarrow> authKey option" where
  "restAuth h now username realm =
     (case SplitN username CHR '':'' 3 of
        [peerType, peerID, timestampStr] \<Rightarrow>
          (case ParseInt timestampStr of
             Inl err \<Rightarrow> None
           | Inr expiry \<Rightarrow>
               let expiryTime = time_Unix expiry in
               if Before expiryTime now then None
               else let maxFutureTime = Add now (48 * Hour) in
               if After expiryTime maxFutureTime then None
               else let secrets = secret h # oldSecrets h
                    in trySecrets secrets username realm)
      | _ \<Rightarrow> None)"

definition staticAuth :: "AuthHandler \<Rightarrow> string \<Rightarrow> string \<Rightarrow> authKey option" where
  "staticAuth h username realm =
     (case staticUsers h username of
        None \<Rightarrow> None
      | Some pw \<Rightarrow> Some (GenerateAuthKey username realm (Plain pw)))"

definition AuthenticateRequest :: "AuthHandler \<Rightarrow> time \<Rightarrow> string \<Rightarrow> string \<Rightarrow> authKey option" where
  "AuthenticateRequest h now username realm =
     (if mode h = ''rest'' then restAuth h now username realm
      else if mode h = ''static'' then staticAuth h username realm
      else None)"

definition UpdateSecrets :: "AuthHandler \<Rightarrow> string \<Rightarrow> string list \<Rightarrow> int \<Rightarrow> AuthHandler" where
  "UpdateSecrets h current old t = h\<lparr>secret := current, oldSecrets := old, ttl := t\<rparr>"

text \<open>
  The relay library checks the message integrity of a request with the key the callback
  returns. A client that holds \<open>password\<close> computes the integrity with
  \<open>GenerateAuthKey username realm password\<close>, so its request is authenticated exactly
  when the callback returns that key.
\<close>

definition authenticates :: "AuthHandler \<Rightarrow> time \<Rightarrow> string \<Rightarrow> string \<Rightarrow> password \<Rightarrow> bool" where
  "authenticates h now realm username pw =
     (AuthenticateRequest h now username realm = Some (GenerateAuthKey username realm pw))"

section \<open>Credential issuance (generateTURNCredentials)\<close>

text \<open>
  The same function is defined in the API server and in the signaling server; the secret
  is \<open>Auth.Secret\<close> of the TURN configuration, \<open>now\<close> the clock reading.
\<close>

definition generateTURNCredentials ::
  "string \<Rightarrow> time \<Rightarrow> string \<Rightarrow> string \<Rightarrow> int \<Rightarrow> string \<times> password \<times> int" where
  "generateTURNCredentials sec now peerType peerID t =
     (let expiry = wrap64 (Unix now + t);
          username = peerType @ '':'' @ peerID @ '':'' @ FormatInt expiry;
          pw = HmacSha256B64 sec username
      in (username, pw, expiry))"

section \<open>REST API (internal/api)\<close>

text \<open>The fields of the TURN configuration that the handlers read.\<close>

record TurnConfig =
  PublicIP :: string
  Ports_TLS :: int
  Auth_Secret :: string
  Auth_TTLSeconds :: int

text \<open>
  The response envelope. \<open>resp_status\<close> is the HTTP status; the data of a successful
  response is one of the shapes the handlers build. Expiry times are kept as Unix seconds
  (the source renders them in RFC 3339).
\<close>

record iceServer =
  ice_urls :: "string list"
  ice_username :: "string option"
  ice_credential :: "password option"

datatype respData =
    CredentialsData string password int int
  | ICEServersData "iceServer list" int
  | MessageData string

record ApiError =
  err_Code :: nat
  err_Message :: string

record ApiResponse =
  resp_status :: nat
  resp_Success :: bool
  resp_Data :: "respData option"
  resp_Error :: "ApiError option"

definition SuccessResp :: "respData \<Rightarrow> ApiResponse" where
  "SuccessResp d = \<lparr>resp_status = 200, resp_Success = True, resp_Data = Some d, resp_Error = None\<rparr>"

definition ErrorResp :: "ApiError \<Rightarrow> ApiResponse" where
  "ErrorResp e =
     \<lparr>resp_status = (if err_Code e \<noteq> 0 then err_Code e else 400),
      resp_Success = False, resp_Data = None, resp_Error = Some e\<rparr>"

definition ErrorCodeResp :: "nat \<Rightarrow> string \<Rightarrow> ApiResponse" where
  "ErrorCodeResp code msg = ErrorResp \<lparr>err_Code = code, err_Message = msg\<rparr>"

definition ErrorNotFoundResp :: "string \<Rightarrow> ApiResponse" where
  "ErrorNotFoundResp msg = ErrorCodeResp 404 msg"

definition ErrorBadRequestResp :: "string \<Rightarrow> ApiResponse" where
  "ErrorBadRequestResp msg = ErrorCodeResp 400 msg"

definition ErrorInternalServerErrorResp :: "string \<Rightarrow> ApiResponse" where
  "ErrorInternalServerErrorResp msg = ErrorCodeResp 500 msg"

text \<open>
  The body of \<open>POST /credentials\<close> after \<open>BodyParser\<close>: \<open>None\<close> when the body does
  not parse; a field that is absent from the JSON has Go's zero value.
\<close>

record credentialsReq =
  req_PeerType :: string
  req_PeerID :: string
  req_TTL :: int

definition handleGenerateCredentials ::
  "TurnConfig \<Rightarrow> time \<Rightarrow> credentialsReq option \<Rightarrow> ApiResponse" where
  "handleGenerateCredentials cfg now body =
     (case body of
        None \<Rightarrow> ErrorBadRequestResp ''Invalid request body''
      | Some req \<Rightarrow>
          if req_PeerType req = [] \<or> req_PeerID req = []
          then ErrorBadRequestResp ''peer_type and peer_id are required''
          else if req_PeerType req \<noteq> ''edge'' \<and> req_PeerType req \<noteq> ''client''
          then ErrorBadRequestResp (''peer_type must be '' @ CHR 0x27 # ''edge'' @ CHR 0x27 # '' or ''
                 @ CHR 0x27 # ''client'' @ [CHR 0x27])
          else let t = (if req_TTL req = 0 then Auth_TTLSeconds cfg else req_TTL req);
                   (username, pw, expiry) =
                     generateTURNCredentials (Auth_Secret cfg) now (req_PeerType req) (req_PeerID req) t
               in SuccessResp (CredentialsData username pw t expiry))"

text \<open>
  \<open>c.Query(key, default)\<close> of the web framework: the default replaces a parameter that
  is absent or empty.
\<close>

definition Query :: "(string \<rightharpoonup> string) \<Rightarrow> string \<Rightarrow> string \<Rightarrow> string" where
  "Query q key dflt = (case q key of None \<Rightarrow> dflt | Some v \<Rightarrow> if v = [] then dflt else v)"

definition handleGetICEServers :: "TurnConfig \<Rightarrow> time \<Rightarrow> (string \<rightharpoonup> string) \<Rightarrow> ApiResponse" where
  "handleGetICEServers cfg now q =
     (let peerType = Query q ''peer_type'' ''client'';
          peerID = Query q ''peer_id'' []
      in if peerID = [] then ErrorBadRequestResp ''peer_id query parameter is required''
         else let (username, pw, expiry) =
                    generateTURNCredentials (Auth_Secret cfg) now peerType peerID (Auth_TTLSeconds cfg);
                  iceServers =
                    [\<lparr>ice_urls = [''stun:'' @ PublicIP cfg @ '':3478''],
                      ice_username = None, ice_credential = None\<rparr>,
                     \<lparr>ice_urls = [''turn:'' @ PublicIP cfg @ '':3478?transport=udp'',
                                  ''turn:'' @ PublicIP cfg @ '':3478?transport=tcp''],
                      ice_username = Some username, ice_credential = Some pw\<rparr>];
                  iceServers' =
                    (if Ports_TLS cfg > 0
                     then iceServers @
                          [\<lparr>ice_urls = [''turns:'' @ PublicIP cfg @ '':'' @ FormatInt (Ports_TLS cfg)
                                        @ ''?transport=tcp''],
                            ice_username = Some username, ice_credential = Some pw\<rparr>]
                     else iceServers)
              in SuccessResp (ICEServersData iceServers' expiry))"

text \<open>The body of \<open>POST /admin/secrets\<close>; \<open>None\<close> when it does not parse.\<close>

record rotateReq =
  req_Secret :: string
  req_OldSecrets :: "string list"

definition handleRotateSecrets :: "rotateReq option \<Rightarrow> ApiResponse" where
  "handleRotateSecrets body =
     (case body of
        None \<Rightarrow> ErrorBadRequestResp ''Invalid request body''
      | Some req \<Rightarrow>
          if req_Secret req = [] then ErrorBadRequestResp ''secret is required''
          else SuccessResp (MessageData ''Secrets rotation endpoint - to be implemented''))"

section \<open>Peer registry (internal/registry)\<close>

record Peer =
  peer_ID :: string
  peer_Type :: string
  peer_AccountID :: string
  peer_PublicKey :: string
  peer_EdgeID :: string
  peer_Connected :: bool
  peer_LastPing :: time
  peer_CreatedAt :: time

text \<open>
  The registry and the signaling server hold pointers to the same \<open>Peer\<close> and
  \<open>PeerConnection\<close> objects, so both kinds of object live in a heap that is indexed by
  addresses. Of a connection, the heap keeps whether its context has been cancelled,
  whether its WebSocket has been closed, and whether its map of client data channels
  has been made.
\<close>

type_synonym ptr = nat

record PeerConnection =
  pc_Peer :: ptr
  pc_cancelled :: bool
  pc_closed :: bool
  pc_ClientDataChans :: bool

record hub =
  peerHeap :: "ptr \<rightharpoonup> Peer"
  connHeap :: "ptr \<rightharpoonup> PeerConnection"
  nextPtr :: ptr
  peers :: "string \<rightharpoonup> ptr"
  connections :: "string \<rightharpoonup> ptr"

text \<open>A registry and a signaling server as \<open>registry.New\<close> and \<open>signaling.New\<close> make them.\<close>

definition newHub :: hub where
  "newHub = \<lparr>peerHeap = Map.empty, connHeap = Map.empty, nextPtr = 0,
             peers = Map.empty, connections = Map.empty\<rparr>"

text \<open>
  \<open>AddPeer\<close> receives a pointer; the address always comes from an allocation, so an
  address without object does not occur (the state is then left as it is).
\<close>

definition AddPeer :: "hub \<Rightarrow> ptr \<Rightarrow> time \<Rightarrow> hub" where
  "AddPeer s p now =
     (case peerHeap s p of
        None \<Rightarrow> s
      | Some peer \<Rightarrow>
          let peer1 = (if IsZero (peer_CreatedAt peer) then peer\<lparr>peer_CreatedAt := now\<rparr> else peer);
              peer2 = peer1\<lparr>peer_Connected := True, peer_LastPing := now\<rparr>
          in s\<lparr>peerHeap := (peerHeap s)(p \<mapsto> peer2), peers := (peers s)(peer_ID peer \<mapsto> p)\<rparr>)"

definition GetPeer :: "hub \<Rightarrow> string \<Rightarrow> Peer option" where
  "GetPeer s ident = (case peers s ident of None \<Rightarrow> None | Some p \<Rightarrow> peerHeap s p)"

definition RemovePeer :: "hub \<Rightarrow> string \<Rightarrow> hub" where
  "RemovePeer s ident =
     (case peers s ident of
        None \<Rightarrow> s
      | Some p \<Rightarrow>
          s\<lparr>peerHeap := (case peerHeap s p of
                            None \<Rightarrow> peerHeap s
                          | Some peer \<Rightarrow> (peerHeap s)(p \<mapsto> peer\<lparr>peer_Connected := False\<rparr>)),
            peers := (peers s)(ident := None)\<rparr>)"

definition UpdateLastPing :: "hub \<Rightarrow> string \<Rightarrow> time \<Rightarrow> hub" where
  "UpdateLastPing s ident now =
     (case peers s ident of
        None \<Rightarrow> s
      | Some p \<Rightarrow>
          (case peerHeap s p of
             None \<Rightarrow> s
           | Some peer \<Rightarrow> s\<lparr>peerHeap := (peerHeap s)(p \<mapsto> peer\<lparr>peer_LastPing := now\<rparr>)\<rparr>))"

section \<open>Signaling server: admission and teardown (handleWebSocket)\<close>

text \<open>\<open>oldConn.Cancel()\<close> and \<open>oldConn.Conn.Close()\<close> on the connection at an address.\<close>

definition cancelAndClose :: "hub \<Rightarrow> ptr \<Rightarrow> hub" where
  "cancelAndClose s c =
     (case connHeap s c of
        None \<Rightarrow> s
      | Some pc \<Rightarrow> s\<lparr>connHeap := (connHeap s)(c \<mapsto> pc\<lparr>pc_cancelled := True, pc_closed := True\<rparr>)\<rparr>)"

text \<open>
  The first part of \<open>handleWebSocket\<close>, up to the release of the server's lock: it builds the
  peer and its connection, adds the peer to the registry, closes a connection that is
  registered under the same id, and installs the new one. The result carries the address
  of the new connection.
\<close>

definition admit :: "hub \<Rightarrow> string \<Rightarrow> string \<Rightarrow> string \<Rightarrow> string \<Rightarrow> time \<Rightarrow> hub \<times> ptr" where
  "admit s peerType ident edgeID publicKey now =
     (let p = nextPtr s;
          c = nextPtr s + 1;
          peer = \<lparr>peer_ID = ident, peer_Type = peerType, peer_AccountID = [],
                  peer_PublicKey = publicKey, peer_EdgeID = edgeID, peer_Connected = False,
                  peer_LastPing = zeroTime, peer_CreatedAt = zeroTime\<rparr>;
          peerConn = \<lparr>pc_Peer = p, pc_cancelled = False, pc_closed = False,
                      pc_ClientDataChans = (peerType = ''edge'')\<rparr>;
          s1 = s\<lparr>peerHeap := (peerHeap s)(p \<mapsto> peer),
                 connHeap := (connHeap s)(c \<mapsto> peerConn),
                 nextPtr := nextPtr s + 2\<rparr>;
          s2 = AddPeer s1 p now;
          s3 = (case connections s2 ident of
                  None \<Rightarrow> s2
                | Some oldConn \<Rightarrow> cancelAndClose s2 oldConn)
      in (s3\<lparr>connections := (connections s3)(ident \<mapsto> c)\<rparr>, c))"

text \<open>
  The deferred function of the handler that runs when the read loop of connection \<open>c\<close>
  ends: \<open>cancel()\<close>, \<open>conn.Close()\<close>, \<open>RemovePeer(id)\<close>, \<open>delete(connections, id)\<close>,
  where \<open>id\<close> is the id the handler was started with.
\<close>

definition cleanup :: "hub \<Rightarrow> ptr \<Rightarrow> string \<Rightarrow> hub" where
  "cleanup s c ident =
     (let s1 = cancelAndClose s c;
          s2 = RemovePeer s1 ident
      in s2\<lparr>connections := (connections s2)(ident := None)\<rparr>)"

section \<open>Service storage (internal/storage/sqlite.go)\<close>

record EdgeService =
  svc_ID :: string
  svc_EdgeID :: string
  svc_Name :: string
  svc_TunnelPort :: int
  svc_LocalHost :: string
  svc_LocalPort :: int
  svc_Protocol :: string
  svc_Enabled :: bool
  svc_CreatedAt :: time
  svc_UpdatedAt :: time

text \<open>
  The table \<open>edge_services\<close> with primary key \<open>id\<close> is a map from ids to rows. Next to
  it the model keeps the sequence of storage methods that were called, in order. Errors
  are the texts of the source's \<open>error\<close> values. Failures of the database engine itself
  (I/O, a closed handle) are outside the model: \<open>Create\<close> fails on a primary key that
  is taken, \<open>Save\<close> writes the row under its key, a lookup or a deletion that finds no
  row reports so. The time stamps of a row are those of the record that is handed in.
\<close>

datatype storageCall =
    CallCreate string
  | CallUpdate string
  | CallDelete string
  | CallGet string

record Storage =
  rows :: "string \<rightharpoonup> EdgeService"
  calls :: "storageCall list"

definition CreateEdgeService :: "Storage \<Rightarrow> EdgeService \<Rightarrow> (string + unit) \<times> Storage" where
  "CreateEdgeService st service =
     (let st1 = st\<lparr>calls := calls st @ [CallCreate (svc_ID service)]\<rparr>
      in case rows st (svc_ID service) of
           Some existing \<Rightarrow>
             (Inl ''failed to create service: UNIQUE constraint failed: edge_services.id'', st1)
         | None \<Rightarrow> (Inr (), st1\<lparr>rows := (rows st)(svc_ID service \<mapsto> service)\<rparr>))"

definition UpdateEdgeService :: "Storage \<Rightarrow> EdgeService \<Rightarrow> (string + unit) \<times> Storage" where
  "UpdateEdgeService st service =
     (Inr (), st\<lparr>rows := (rows st)(svc_ID service \<mapsto> service),
                 calls := calls st @ [CallUpdate (svc_ID service)]\<rparr>)"

definition DeleteEdgeService :: "Storage \<Rightarrow> string \<Rightarrow> (string + unit) \<times> Storage" where
  "DeleteEdgeService st ident =
     (let st1 = st\<lparr>calls := calls st @ [CallDelete ident]\<rparr>
      in case rows st ident of
           None \<Rightarrow> (Inl ''service not found'', st1)
         | Some existing \<Rightarrow> (Inr (), st1\<lparr>rows := (rows st)(ident := None)\<rparr>))"

definition GetEdgeService :: "Storage \<Rightarrow> string \<Rightarrow> (string + EdgeService) \<times> Storage" where
  "GetEdgeService st ident =
     (let st1 = st\<lparr>calls := calls st @ [CallGet ident]\<rparr>
      in case rows st ident of
           None \<Rightarrow> (Inl ''service not found'', st1)
         | Some service \<Rightarrow> (Inr service, st1))"

text \<open>\<open>DELETE /services/:id\<close> of the REST API.\<close>

definition handleDeleteService :: "Storage \<Rightarrow> string \<Rightarrow> ApiResponse \<times> Storage" where
  "handleDeleteService st ident =
     (case DeleteEdgeService st ident of
        (Inl err, st1) \<Rightarrow> (ErrorInternalServerErrorResp ''Failed to delete service'', st1)
      | (Inr u, st1) \<Rightarrow> (SuccessResp (MessageData ''Service deleted successfully''), st1))"

section \<open>Service synchronisation (signaling: service handlers)\<close>

definition maxBatchSize :: nat where
  "maxBatchSize = 1000"

text \<open>\<open>nameRegex\<close> is \<open>^[a-zA-Z0-9 _-]+$\<close>.\<close>

definition nameChar :: "char \<Rightarrow> bool" where
  "nameChar c =
     ((CHR ''a'' \<le> c \<and> c \<le> CHR ''z'') \<or> (CHR ''A'' \<le> c \<and> c \<le> CHR ''Z'')
      \<or> (CHR ''0'' \<le> c \<and> c \<le> CHR ''9'') \<or> c = CHR '' '' \<or> c = CHR ''_'' \<or> c = CHR ''-'')"

definition nameRegex_MatchString :: "string \<Rightarrow> bool" where
  "nameRegex_MatchString s = (s \<noteq> [] \<and> list_all nameChar s)"

text \<open>\<open>validateService\<close>: \<open>None\<close> is the source's \<open>nil\<close>, \<open>Some msg\<close> an error.\<close>

definition validateService :: "EdgeService \<Rightarrow> string option" where
  "validateService service =
     (if svc_ID service = [] then Some ''service ID is required''
      else if length (svc_ID service) > 8 then Some ''service ID too long (max 8 characters)''
      else if svc_EdgeID service = [] then Some ''edge ID is required''
      else if svc_Name service = [] then Some ''service name is required''
      else if length (svc_Name service) > 128 then Some ''service name too long (max 128 characters)''
      else if \<not> nameRegex_MatchString (svc_Name service)
      then Some ''service name must contain only alphanumeric, hyphens, underscores, and spaces''
      else if svc_LocalHost service = [] then Some ''local host is required''
      else if svc_TunnelPort service < 1 \<or> svc_TunnelPort service > 65535
      then Some (''invalid tunnel port: '' @ FormatInt (svc_TunnelPort service) @ '' (must be 1-65535)'')
      else if svc_LocalPort service < 1 \<or> svc_LocalPort service > 65535
      then Some (''invalid local port: '' @ FormatInt (svc_LocalPort service) @ '' (must be 1-65535)'')
      else if svc_Protocol service \<noteq> ''http'' \<and> svc_Protocol service \<noteq> ''websocket''
      then Some (''invalid protocol: '' @ svc_Protocol service @ '' (must be http or websocket)'')
      else None)"

definition createService :: "Storage \<Rightarrow> time \<Rightarrow> EdgeService \<Rightarrow> (string + unit) \<times> Storage" where
  "createService st now service =
     (let service1 = service\<lparr>svc_CreatedAt := now, svc_UpdatedAt := now\<rparr>
      in case CreateEdgeService st service1 of
           (Inl err, st1) \<Rightarrow> (Inl (''failed to create service: '' @ err), st1)
         | (Inr u, st1) \<Rightarrow> (Inr (), st1))"

definition updateService :: "Storage \<Rightarrow> time \<Rightarrow> EdgeService \<Rightarrow> (string + unit) \<times> Storage" where
  "updateService st now service =
     (case GetEdgeService st (svc_ID service) of
        (Inl err, st1) \<Rightarrow> (Inl (''service not found: '' @ err), st1)
      | (Inr existing, st1) \<Rightarrow>
          if svc_EdgeID existing \<noteq> svc_EdgeID service
          then (Inl ''service belongs to different edge'', st1)
          else let existing1 = existing\<lparr>svc_Name := svc_Name service,
                                        svc_TunnelPort := svc_TunnelPort service,
                                        svc_LocalHost := svc_LocalHost service,
                                        svc_LocalPort := svc_LocalPort service,
                                        svc_Protocol := svc_Protocol service,
                                        svc_Enabled := svc_Enabled service,
                                        svc_UpdatedAt := now\<rparr>
               in case UpdateEdgeService st1 existing1 of
                    (Inl err, st2) \<Rightarrow> (Inl (''failed to update service: '' @ err), st2)
                  | (Inr u, st2) \<Rightarrow> (Inr (), st2))"

definition deleteService :: "Storage \<Rightarrow> string \<Rightarrow> (string + unit) \<times> Storage" where
  "deleteService st ident =
     (case DeleteEdgeService st ident of
        (Inl err, st1) \<Rightarrow> (Inl (''failed to delete service: '' @ err), st1)
      | (Inr u, st1) \<Rightarrow> (Inr (), st1))"

text \<open>
  Messages written to the sender's connection. Both kinds of acknowledgement have type
  \<open>service-sync-ack\<close>: the one of a single sync carries \<open>localId\<close>, \<open>serverId\<close>,
  \<open>status\<close> and \<open>error\<close>, the summary of a batch carries \<open>status\<close> and \<open>message\<close>.
\<close>

datatype msgData =
    ErrorData string
  | SyncAckData string string string string
  | BatchAckData string string

record SignalingMessage =
  msg_Type :: string
  msg_Data :: msgData

definition MessageTypeServiceSyncAck :: string where
  "MessageTypeServiceSyncAck = ''service-sync-ack''"

definition sendError :: "string \<Rightarrow> SignalingMessage" where
  "sendError errMsg = \<lparr>msg_Type = ''error'', msg_Data = ErrorData errMsg\<rparr>"

definition sendServiceSyncAck :: "string \<Rightarrow> string \<Rightarrow> string \<Rightarrow> string \<Rightarrow> SignalingMessage" where
  "sendServiceSyncAck localID serverID status errorMsg =
     \<lparr>msg_Type = MessageTypeServiceSyncAck, msg_Data = SyncAckData localID serverID status errorMsg\<rparr>"

text \<open>
  The payload of an incoming message after the handler's type assertions. A service is
  either not a JSON object, or an object that \<open>encoding/json\<close> decodes into an
  \<open>EdgeService\<close> or rejects with an error. The decoder belongs to Go's library; its
  outcome is part of the input.
\<close>

datatype serviceData = ServiceNotMap | ServiceMap "string + EdgeService"

datatype syncData = SyncNotMap | SyncMap string serviceData

datatype batchData = BatchNotMap | BatchNoArray | BatchServices "serviceData list"

definition parseEdgeService :: "string + EdgeService \<Rightarrow> string + EdgeService" where
  "parseEdgeService decoded =
     (case decoded of
        Inl err \<Rightarrow> Inl (''failed to unmarshal service data: '' @ err)
      | Inr service \<Rightarrow> Inr service)"

text \<open>
  \<open>handleServiceSync\<close> for a message that arrives on the connection of peer \<open>fromID\<close>.
  The result is the list of messages written to that connection and the storage
  afterwards.
\<close>

definition handleServiceSync ::
  "Storage \<Rightarrow> string \<Rightarrow> time \<Rightarrow> syncData \<Rightarrow> SignalingMessage list \<times> Storage" where
  "handleServiceSync st fromID now msgdata =
     (case msgdata of
        SyncNotMap \<Rightarrow> ([sendServiceSyncAck [] [] ''error'' ''Invalid message data format''], st)
      | SyncMap operation ServiceNotMap \<Rightarrow>
          ([sendServiceSyncAck [] [] ''error'' ''Invalid service data format''], st)
      | SyncMap operation (ServiceMap decoded) \<Rightarrow>
          (case parseEdgeService decoded of
             Inl err \<Rightarrow>
               ([sendServiceSyncAck [] [] ''error'' (''Failed to parse service: '' @ err)], st)
           | Inr parsed \<Rightarrow>
               let service = parsed\<lparr>svc_EdgeID := fromID\<rparr> in
               (case validateService service of
                  Some err \<Rightarrow>
                    ([sendServiceSyncAck (svc_ID service) (svc_ID service) ''error'' err], st)
                | None \<Rightarrow>
                    if operation \<noteq> ''created'' \<and> operation \<noteq> ''updated'' \<and> operation \<noteq> ''deleted''
                    then ([sendServiceSyncAck (svc_ID service) [] ''error'' ''invalid operation''], st)
                    else
                      (case (if operation = ''created'' then createService st now service
                             else if operation = ''updated'' then updateService st now service
                             else deleteService st (svc_ID service)) of
                         (Inl err, st1) \<Rightarrow>
                           ([sendServiceSyncAck (svc_ID service) [] ''error'' err], st1)
                       | (Inr u, st1) \<Rightarrow>
                           ([sendServiceSyncAck (svc_ID service) (svc_ID service) ''success'' []], st1)))))"

text \<open>
  The loop of \<open>handleServiceSyncBatch\<close> over the entries, with the two counters. An
  entry that fails is counted and the loop goes on with the next one.
\<close>

fun batchLoop ::
  "Storage \<Rightarrow> string \<Rightarrow> time \<Rightarrow> serviceData list \<Rightarrow> nat \<Rightarrow> nat \<Rightarrow> Storage \<times> nat \<times> nat" where
  "batchLoop st fromID now [] successCount failedCount = (st, successCount, failedCount)"
| "batchLoop st fromID now (svcData # rest) successCount failedCount =
     (case svcData of
        ServiceNotMap \<Rightarrow> batchLoop st fromID now rest successCount (failedCount + 1)
      | ServiceMap decoded \<Rightarrow>
          (case parseEdgeService decoded of
             Inl err \<Rightarrow> batchLoop st fromID now rest successCount (failedCount + 1)
           | Inr parsed \<Rightarrow>
               let service = parsed\<lparr>svc_EdgeID := fromID\<rparr> in
               (case validateService service of
                  Some err \<Rightarrow> batchLoop st fromID now rest successCount (failedCount + 1)
                | None \<Rightarrow>
                    (case updateService st now service of
                       (Inr u, st1) \<Rightarrow> batchLoop st1 fromID now rest (successCount + 1) failedCount
                     | (Inl err, st1) \<Rightarrow>
                         (case createService st1 now service of
                            (Inl err2, st2) \<Rightarrow>
                              batchLoop st2 fromID now rest successCount (failedCount + 1)
                          | (Inr u, st2) \<Rightarrow>
                              batchLoop st2 fromID now rest (successCount + 1) failedCount)))))"

definition handleServiceSyncBatch ::
  "Storage \<Rightarrow> string \<Rightarrow> time \<Rightarrow> batchData \<Rightarrow> SignalingMessage list \<times> Storage" where
  "handleServiceSyncBatch st fromID now msgdata =
     (case msgdata of
        BatchNotMap \<Rightarrow> ([sendError ''Invalid batch sync message''], st)
      | BatchNoArray \<Rightarrow> ([sendError ''Invalid services array''], st)
      | BatchServices servicesData \<Rightarrow>
          if length servicesData > maxBatchSize
          then ([sendError (''Batch size exceeds maximum of '' @ FormatInt (int maxBatchSize)
                            @ '' services'')], st)
          else let (st1, successCount, failedCount) = batchLoop st fromID now servicesData 0 0
               in ([\<lparr>msg_Type = MessageTypeServiceSyncAck,
                      msg_Data = BatchAckData ''success''
                                   (''Synced '' @ FormatInt (int successCount) @ '' services'')\<rparr>],
                   st1))"

section \<open>The running process (runServer)\<close>

text \<open>
  \<open>runServer\<close> builds one TURN server, whose authentication handler validates the
  credentials, and one API server, which reads the TURN configuration to issue them. The
  API server holds no reference to the TURN server. A request to
  \<open>POST /api/v1/admin/secrets\<close> runs \<open>handleRotateSecrets\<close>; \<open>SIGHUP\<close> reloads the
  configuration and calls \<open>UpdateSecrets\<close> on the TURN server.
\<close>

record process =
  turnServer :: AuthHandler
  apiTurnCfg :: TurnConfig

definition postAdminSecrets :: "process \<Rightarrow> rotateReq option \<Rightarrow> ApiResponse \<times> process" where
  "postAdminSecrets srv body = (handleRotateSecrets body, srv)"

definition sighup :: "process \<Rightarrow> string \<Rightarrow> string list \<Rightarrow> int \<Rightarrow> process" where
  "sighup srv newSecret newOldSecrets newTTL =
     srv\<lparr>turnServer := UpdateSecrets (turnServer srv) newSecret newOldSecrets newTTL\<rparr>"

section \<open>Data of the service scenarios\<close>

text \<open>
  The fifth boundary scenario of the specification: the service \<open>S1\<close> as the edge \<open>E1\<close>
  created it at clock reading 100, the storage that holds it, and the service data a
  peer sends for \<open>S1\<close> (the edge id is filled in by the handler, the time stamps are
  absent).
\<close>

definition storedS1 :: EdgeService where
  "storedS1 = \<lparr>svc_ID = ''S1'', svc_EdgeID = ''E1'', svc_Name = ''ok'', svc_TunnelPort = 8080,
                svc_LocalHost = ''h'', svc_LocalPort = 3000, svc_Protocol = ''http'',
                svc_Enabled = False, svc_CreatedAt = 100, svc_UpdatedAt = 100\<rparr>"

definition storageS1 :: Storage where
  "storageS1 = \<lparr>rows = [''S1'' \<mapsto> storedS1], calls = []\<rparr>"

definition sentS1 :: EdgeService where
  "sentS1 = \<lparr>svc_ID = ''S1'', svc_EdgeID = [], svc_Name = ''ok'', svc_TunnelPort = 8080,
              svc_LocalHost = ''h'', svc_LocalPort = 3000, svc_Protocol = ''http'',
              svc_Enabled = False, svc_CreatedAt = zeroTime, svc_UpdatedAt = zeroTime\<rparr>"

section \<open>Formatting and parsing of expiry times\<close>

lemma digit_cases:
  "(d::nat) < 10 \<Longrightarrow> d = 0 \<or> d = 1 \<or> d = 2 \<or> d = 3 \<or> d = 4 \<or> d = 5 \<or> d = 6 \<or> d = 7 \<or> d = 8 \<or> d = 9"
  by arith

lemma digitVal_digitChar: "d < 10 \<Longrightarrow> digitVal (digitChar d) = d"
  using digit_cases [of d] unfolding digitChar_def digitVal_def by auto

lemma isDigit_digitChar: "d < 10 \<Longrightarrow> isDigit (digitChar d)"
  using digit_cases [of d] unfolding digitChar_def isDigit_def
  by (auto simp add: less_eq_char_def)

lemma isDigit_not_sign: "isDigit c \<Longrightarrow> c \<noteq> CHR ''+'' \<and> c \<noteq> CHR ''-''"
  unfolding isDigit_def by (auto simp add: less_eq_char_def)

lemma FormatUint_nonempty: "FormatUint n \<noteq> []"
  by (subst FormatUint.simps) simp

lemma FormatUint_digits: "list_all isDigit (FormatUint n)"
proof (induction n rule: FormatUint.induct)
  case (1 n)
  show ?case
  proof (cases "n < 10")
    case True
    then show ?thesis by (subst FormatUint.simps) (simp add: isDigit_digitChar)
  next
    case False
    with 1 show ?thesis by (subst FormatUint.simps) (simp add: isDigit_digitChar)
  qed
qed

lemma FormatUint_value: "foldl (\<lambda>a c. 10 * a + digitVal c) 0 (FormatUint n) = n"
proof (induction n rule: FormatUint.induct)
  case (1 n)
  show ?case
  proof (cases "n < 10")
    case True
    then show ?thesis by (subst FormatUint.simps) (simp add: digitVal_digitChar)
  next
    case False
    with 1 show ?thesis by (subst FormatUint.simps) (simp add: digitVal_digitChar)
  qed
qed

lemma ParseUint_FormatUint: "ParseUint (FormatUint n) = Inr n"
  by (simp add: ParseUint_def FormatUint_nonempty FormatUint_digits FormatUint_value)

lemma hd_FormatUint: "isDigit (hd (FormatUint n))"
  using FormatUint_nonempty [of n] FormatUint_digits [of n]
  by (cases "FormatUint n") simp_all

lemma ParseInt_FormatInt:
  assumes "- (2 ^ 63) \<le> i" and "i < 2 ^ 63"
  shows "ParseInt (FormatInt i) = Inr i"
proof (cases "i < 0")
  case True
  have "nat (- i) \<le> 2 ^ 63" using assms(1) by simp
  then have "\<not> (2::nat) ^ 63 < nat (- i)" by simp
  with True show ?thesis
    by (simp add: ParseInt_def FormatInt_def ParseUint_FormatUint)
next
  case False
  have sign: "hd (FormatUint (nat i)) \<noteq> CHR ''+''" "hd (FormatUint (nat i)) \<noteq> CHR ''-''"
    using isDigit_not_sign [OF hd_FormatUint [of "nat i"]] by simp_all
  have "nat i < 2 ^ 63" using assms(2) False by simp
  then have "\<not> (2::nat) ^ 63 \<le> nat i" by simp
  with False sign show ?thesis
    by (simp add: ParseInt_def FormatInt_def ParseUint_FormatUint FormatUint_nonempty)
qed

lemma SplitN_three:
  assumes "c \<notin> set a" and "c \<notin> set b"
  shows "SplitN (a @ c # b @ c # rest) c 3 = [a, b, rest]"
proof -
  have tw: "takeWhile (\<lambda>x. x \<noteq> c) (xs @ c # ys) = xs" if "c \<notin> set xs" for xs ys
    using that by (induction xs) auto
  have dw: "dropWhile (\<lambda>x. x \<noteq> c) (xs @ c # ys) = c # ys" if "c \<notin> set xs" for xs ys
    using that by (induction xs) auto
  show ?thesis using assms by (simp add: numeral_3_eq_3 tw dw)
qed

lemma time_Unix_exact:
  assumes "- (2 ^ 63) \<le> e + unixToInternal" and "e + unixToInternal < 2 ^ 63"
  shows "time_Unix e = e * nanosPerSecond"
proof -
  have "wrap64 (e + unixToInternal) = e + unixToInternal"
    using assms unfolding wrap64_def by simp
  then show ?thesis by (simp add: time_Unix_def)
qed

lemma wrap64_id: "- (2 ^ 63) \<le> x \<Longrightarrow> x < 2 ^ 63 \<Longrightarrow> wrap64 x = x"
  unfolding wrap64_def by simp

lemma trySecrets_None: "trySecrets ss u r = None \<longleftrightarrow> (\<forall>s \<in> set ss. s = [])"
  by (induction ss) (auto simp add: Let_def)

lemma trySecrets_first:
  "trySecrets ss u r = Some k \<longleftrightarrow>
     (\<exists>s. find (\<lambda>s. s \<noteq> []) ss = Some s \<and> k = GenerateAuthKey u r (HmacSha256B64 s u))"
  by (induction ss) (auto simp add: Let_def)

text \<open>The clock readings and lifetimes for which no \<open>int64\<close> wraps.\<close>

lemma Unix_bounds:
  assumes "0 \<le> t0" and "t0 < 2 ^ 62"
  shows "0 \<le> Unix t0" and "Unix t0 < 2 ^ 62" and "Unix t0 * nanosPerSecond \<le> t0"
proof -
  show nonneg: "0 \<le> Unix t0" using assms(1) by (simp add: Unix_def nanosPerSecond_def)
  have "Unix t0 * nanosPerSecond + t0 mod nanosPerSecond = t0"
    by (simp add: Unix_def)
  moreover have "0 \<le> t0 mod nanosPerSecond"
    by (simp add: nanosPerSecond_def)
  ultimately show le: "Unix t0 * nanosPerSecond \<le> t0" by linarith
  have "Unix t0 \<le> Unix t0 * nanosPerSecond"
    using nonneg by (simp add: nanosPerSecond_def)
  with le assms(2) show "Unix t0 < 2 ^ 62" by linarith
qed

lemma generate_exact:
  assumes "0 \<le> t0" and "t0 < 2 ^ 62" and "0 \<le> T" and "T < 2 ^ 62"
  shows "generateTURNCredentials sec t0 pt pid T =
           (pt @ CHR '':'' # pid @ CHR '':'' # FormatInt (Unix t0 + T),
            HmacSha256B64 sec (pt @ CHR '':'' # pid @ CHR '':'' # FormatInt (Unix t0 + T)),
            Unix t0 + T)"
proof -
  have "wrap64 (Unix t0 + T) = Unix t0 + T"
    using Unix_bounds(1,2) [OF assms(1,2)] assms(3,4) by (intro wrap64_id) simp_all
  then show ?thesis by (simp add: generateTURNCredentials_def Let_def)
qed

lemma restAuth_issued:
  assumes "CHR '':'' \<notin> set pt" and "CHR '':'' \<notin> set pid"
    and "0 \<le> e" and "e < 2 ^ 63 - unixToInternal"
  shows "restAuth h now (pt @ CHR '':'' # pid @ CHR '':'' # FormatInt e) realm =
           (if e * nanosPerSecond < now \<or> now + 48 * Hour < e * nanosPerSecond then None
            else trySecrets (secret h # oldSecrets h) (pt @ CHR '':'' # pid @ CHR '':'' # FormatInt e) realm)"
proof -
  have p: "ParseInt (FormatInt e) = Inr e"
    using assms(3,4) by (intro ParseInt_FormatInt) (simp_all add: unixToInternal_def)
  have t: "time_Unix e = e * nanosPerSecond"
    using assms(3,4) by (intro time_Unix_exact) (simp_all add: unixToInternal_def)
  show ?thesis
    by (simp add: restAuth_def SplitN_three [OF assms(1,2)] p t Before_def After_def Add_def Let_def)
qed

section \<open>Evaluation of the literal scenarios\<close>

lemmas eval_time = time_Unix_def wrap64_def unixToInternal_def
  nanosPerSecond_def Unix_def Before_def After_def Add_def Hour_def

lemmas eval_parse = ParseInt_def ParseUint_def isDigit_def digitVal_def numeral_3_eq_3 less_eq_char_def

lemmas eval_format = FormatInt_def FormatUint.simps digitChar_def

lemma issue_e1_60:
  "generateTURNCredentials sec 1700000000000000000 ''edge'' ''e1'' 60 =
     (''edge:e1:1700000060'', HmacSha256B64 sec ''edge:e1:1700000060'', 1700000060)"
proof -
  have "FormatInt 1700000060 = ''1700000060''" by (simp add: eval_format)
  then show ?thesis by (simp add: generateTURNCredentials_def eval_time Let_def)
qed

lemma issue_e1_72h:
  "generateTURNCredentials sec 1700000000000000000 ''edge'' ''e1'' 259200 =
     (''edge:e1:1700259200'', HmacSha256B64 sec ''edge:e1:1700259200'', 1700259200)"
proof -
  have "FormatInt 1700259200 = ''1700259200''" by (simp add: eval_format)
  then show ?thesis by (simp add: generateTURNCredentials_def eval_time Let_def)
qed

section \<open>The TURN authentication callback\<close>

text \<open>
  Claim C1, as amended. Take a credential that \<open>generateTURNCredentials\<close> issues at clock
  reading \<open>t0\<close> with lifetime \<open>T\<close> for a peer type and a peer id without colon, so that
  its expiry is \<open>Unix t0 + T\<close> seconds. At clock reading \<open>now\<close> the callback \<open>restAuth\<close>
  returns key material if and only if the expiry is not before \<open>now\<close>, is at most 48
  hours after \<open>now\<close>, and the handler holds a secret that is not empty. The callback
  never sees the password of the credential, so the password has no part in its answer;
  the key it returns is derived from the password recomputed under a non-empty secret of
  the handler. (The clock readings and the lifetime are bounded so that no \<open>int64\<close>
  wraps: the clock is after 1970 and below \<open>2^62\<close> nanoseconds, the lifetime is not
  negative and below \<open>2^32\<close> seconds.)
\<close>

theorem restAuth_accepts_issued_iff:
  assumes "CHR '':'' \<notin> set pt" and "CHR '':'' \<notin> set pid"
    and "0 \<le> t0" and "t0 < 2 ^ 62" and "0 \<le> T" and "T < 2 ^ 32"
    and "generateTURNCredentials sec t0 pt pid T = (username, pw, expiry)"
  shows "expiry = Unix t0 + T
         \<and> (restAuth h now username realm \<noteq> None \<longleftrightarrow>
              now \<le> expiry * nanosPerSecond \<and> expiry * nanosPerSecond \<le> now + 48 * Hour
              \<and> (\<exists>s \<in> set (secret h # oldSecrets h). s \<noteq> []))
         \<and> (\<forall>k. restAuth h now username realm = Some k \<longrightarrow>
              (\<exists>s \<in> set (secret h # oldSecrets h).
                 s \<noteq> [] \<and> k = GenerateAuthKey username realm (HmacSha256B64 s username)))"
proof -
  have T62: "T < 2 ^ 62" using assms(6) by simp
  have g: "username = pt @ CHR '':'' # pid @ CHR '':'' # FormatInt (Unix t0 + T)"
      "expiry = Unix t0 + T"
    using generate_exact [OF assms(3,4,5) T62, of sec pt pid] assms(7) by simp_all
  have e0: "0 \<le> expiry" using Unix_bounds(1) [OF assms(3,4)] assms(5) g(2) by simp
  have e1: "expiry < 2 ^ 63 - unixToInternal"
    using Unix_bounds(2) [OF assms(3,4)] assms(6) g(2) by (simp add: unixToInternal_def)
  have r: "restAuth h now username realm =
             (if expiry * nanosPerSecond < now \<or> now + 48 * Hour < expiry * nanosPerSecond then None
              else trySecrets (secret h # oldSecrets h) username realm)"
    using restAuth_issued [OF assms(1,2) e0 e1, of h now realm] g by simp
  have a: "restAuth h now username realm \<noteq> None \<longleftrightarrow>
              now \<le> expiry * nanosPerSecond \<and> expiry * nanosPerSecond \<le> now + 48 * Hour
              \<and> (\<exists>s \<in> set (secret h # oldSecrets h). s \<noteq> [])"
    unfolding r using trySecrets_None [of "secret h # oldSecrets h" username realm] by auto
  have b: "\<exists>s \<in> set (secret h # oldSecrets h).
                 s \<noteq> [] \<and> k = GenerateAuthKey username realm (HmacSha256B64 s username)"
    if "restAuth h now username realm = Some k" for k
  proof -
    from that have "trySecrets (secret h # oldSecrets h) username realm = Some k"
      unfolding r by (simp split: if_splits)
    then obtain s where s: "find (\<lambda>s. s \<noteq> []) (secret h # oldSecrets h) = Some s"
        "k = GenerateAuthKey username realm (HmacSha256B64 s username)"
      unfolding trySecrets_first by blast
    from s(1) have "s \<in> set (secret h # oldSecrets h) \<and> s \<noteq> []"
      unfolding find_Some_iff by (metis nth_mem)
    with s(2) show ?thesis by blast
  qed
  from g(2) a b show ?thesis by blast
qed

text \<open>
  The first boundary scenario of the specification: secret \<open>s\<close>, peer \<open>edge\<close>/\<open>e1\<close>,
  issued at 1700000000 with a lifetime of 60 seconds; accepted at 1700000030, rejected at
  1700000061.
\<close>

theorem restAuth_accepts_issued_iff_witness:
  "CHR '':'' \<notin> set ''edge'' \<and> CHR '':'' \<notin> set ''e1''
   \<and> (0::int) \<le> 1700000000000000000 \<and> (1700000000000000000::int) < 2 ^ 62
   \<and> (0::int) \<le> 60 \<and> (60::int) < 2 ^ 32
   \<and> generateTURNCredentials ''s'' 1700000000000000000 ''edge'' ''e1'' 60 =
        (''edge:e1:1700000060'', HmacSha256B64 ''s'' ''edge:e1:1700000060'', 1700000060)
   \<and> restAuth (NewAuthHandler ''rest'' ''s'' [] 60 Map.empty) 1700000030000000000
        ''edge:e1:1700000060'' ''example.com'' \<noteq> None
   \<and> restAuth (NewAuthHandler ''rest'' ''s'' [] 60 Map.empty) 1700000061000000000
        ''edge:e1:1700000060'' ''example.com'' = None"
proof -
  note g = issue_e1_60 [of "''s''"]
  have c: "CHR '':'' \<notin> set ''edge''" "CHR '':'' \<notin> set ''e1''" by simp_all
  have b: "(0::int) \<le> 1700000000000000000" "(1700000000000000000::int) < 2 ^ 62"
      "(0::int) \<le> 60" "(60::int) < 2 ^ 32" by simp_all
  note th = restAuth_accepts_issued_iff [OF c b g]
  show ?thesis
    using g th [of "NewAuthHandler ''rest'' ''s'' [] 60 Map.empty" 1700000030000000000 "''example.com''"]
      th [of "NewAuthHandler ''rest'' ''s'' [] 60 Map.empty" 1700000061000000000 "''example.com''"]
    by (simp add: NewAuthHandler_def nanosPerSecond_def Hour_def)
qed

text \<open>
  Claim C1 as stated fails in two ways. A credential issued at \<open>t0 = 1700000000\<close> with a
  lifetime of 72 hours and examined at \<open>t0\<close> itself satisfies \<open>t0 \<le> t < t0 + T\<close> and
  \<open>t < t0 + 48h\<close>, and its password is the one computed under the handler's secret, yet
  the callback rejects it (its expiry is more than 48 hours ahead). And for the user name
  of a credential in its window the callback returns key material whatever password the
  client holds, for instance one computed under a secret the handler does not have.
\<close>

theorem restAuth_claim_counterexample:
  "generateTURNCredentials ''s'' 1700000000000000000 ''edge'' ''e1'' 259200 =
     (''edge:e1:1700259200'', HmacSha256B64 ''s'' ''edge:e1:1700259200'', 1700259200)
   \<and> (1700000000000000000::int) < 1700000000000000000 + 259200 * nanosPerSecond
   \<and> (1700000000000000000::int) < 1700000000000000000 + 48 * Hour
   \<and> restAuth (NewAuthHandler ''rest'' ''s'' [] 259200 Map.empty) 1700000000000000000
        ''edge:e1:1700259200'' ''example.com'' = None
   \<and> restAuth (NewAuthHandler ''rest'' ''s'' [] 60 Map.empty) 1700000030000000000
        ''edge:e1:1700000060'' ''example.com'' \<noteq> None
   \<and> HmacSha256B64 ''forged'' ''edge:e1:1700000060'' \<noteq> HmacSha256B64 ''s'' ''edge:e1:1700000060''"
proof -
  have a: "restAuth (NewAuthHandler ''rest'' ''s'' [] 259200 Map.empty) 1700000000000000000
        ''edge:e1:1700259200'' ''example.com'' = None"
    by (simp add: restAuth_def eval_parse eval_time NewAuthHandler_def)
  have b: "restAuth (NewAuthHandler ''rest'' ''s'' [] 60 Map.empty) 1700000030000000000
        ''edge:e1:1700000060'' ''example.com'' \<noteq> None"
    by (simp add: restAuth_def eval_parse eval_time NewAuthHandler_def)
  show ?thesis using a b issue_e1_72h [of "''s''"] by (simp add: nanosPerSecond_def Hour_def)
qed

section \<open>Issue and verify\<close>





section \<open>Rotation of the secrets\<close>

text \<open>
  Claim C2 at its failing input, the second boundary scenario of the specification:
  current secret \<open>a\<close>, no old secrets, a credential issued under \<open>a\<close> with a lifetime
  of 60 seconds, then \<open>UpdateSecrets\<close> to current \<open>b\<close> with old secrets \<open>[a]\<close>. Thirty
  seconds after issuance the credential was authenticated before the rotation; after it
  the callback returns the key of the password under \<open>b\<close>, the loop over the secrets
  having returned at the first secret that is not empty, so the credential issued under
  \<open>a\<close> is not authenticated although \<open>a\<close> is among the old secrets. A credential
  under the new secret \<open>b\<close> is authenticated.
\<close>

theorem rotation_drops_grace_secret:
  "generateTURNCredentials ''a'' 1700000000000000000 ''edge'' ''e1'' 60 =
     (''edge:e1:1700000060'', HmacSha256B64 ''a'' ''edge:e1:1700000060'', 1700000060)
   \<and> authenticates (NewAuthHandler ''rest'' ''a'' [] 60 Map.empty) 1700000030000000000
        ''example.com'' ''edge:e1:1700000060'' (HmacSha256B64 ''a'' ''edge:e1:1700000060'')
   \<and> AuthenticateRequest (UpdateSecrets (NewAuthHandler ''rest'' ''a'' [] 60 Map.empty) ''b'' [''a''] 60)
        1700000030000000000 ''edge:e1:1700000060'' ''example.com'' =
      Some (GenerateAuthKey ''edge:e1:1700000060'' ''example.com''
              (HmacSha256B64 ''b'' ''edge:e1:1700000060''))
   \<and> \<not> authenticates (UpdateSecrets (NewAuthHandler ''rest'' ''a'' [] 60 Map.empty) ''b'' [''a''] 60)
          1700000030000000000 ''example.com'' ''edge:e1:1700000060''
          (HmacSha256B64 ''a'' ''edge:e1:1700000060'')
   \<and> authenticates (UpdateSecrets (NewAuthHandler ''rest'' ''a'' [] 60 Map.empty) ''b'' [''a''] 60)
        1700000030000000000 ''example.com'' ''edge:e1:1700000060''
        (HmacSha256B64 ''b'' ''edge:e1:1700000060'')"
proof -
  have r: "restAuth h 1700000030000000000 ''edge:e1:1700000060'' ''example.com'' =
             trySecrets (secret h # oldSecrets h) ''edge:e1:1700000060'' ''example.com''" for h
    by (simp add: restAuth_def eval_parse eval_time)
  show ?thesis using issue_e1_60 [of "''a''"]
    by (simp add: authenticates_def AuthenticateRequest_def r NewAuthHandler_def UpdateSecrets_def
        GenerateAuthKey_def)
qed

section \<open>The admin route for the secrets\<close>

text \<open>
  Claim C5 at its failing input: the TURN server validates under the secret \<open>a\<close>, and
  \<open>POST /api/v1/admin/secrets\<close> arrives with secret \<open>b\<close> and old secrets \<open>[a]\<close>. The
  route answers with a success envelope whose message says that the endpoint is still to
  be implemented, and the process is as before: the handler's secret is still \<open>a\<close>, and
  a credential issued under \<open>b\<close> is not authenticated. The same rotation through
  \<open>SIGHUP\<close> does reach the handler.
\<close>

theorem postAdminSecrets_does_not_rotate:
  "postAdminSecrets
      \<lparr>turnServer = NewAuthHandler ''rest'' ''a'' [] 60 Map.empty,
       apiTurnCfg = \<lparr>PublicIP = ''127.0.0.1'', Ports_TLS = 5349, Auth_Secret = ''a'',
                     Auth_TTLSeconds = 60\<rparr>\<rparr>
      (Some \<lparr>req_Secret = ''b'', req_OldSecrets = [''a'']\<rparr>) =
     (SuccessResp (MessageData ''Secrets rotation endpoint - to be implemented''),
      \<lparr>turnServer = NewAuthHandler ''rest'' ''a'' [] 60 Map.empty,
       apiTurnCfg = \<lparr>PublicIP = ''127.0.0.1'', Ports_TLS = 5349, Auth_Secret = ''a'',
                     Auth_TTLSeconds = 60\<rparr>\<rparr>)
   \<and> secret (NewAuthHandler ''rest'' ''a'' [] 60 Map.empty) = ''a''
   \<and> \<not> authenticates (NewAuthHandler ''rest'' ''a'' [] 60 Map.empty) 1700000030000000000
          ''example.com'' ''edge:e1:1700000060'' (HmacSha256B64 ''b'' ''edge:e1:1700000060'')
   \<and> authenticates
         (turnServer (sighup \<lparr>turnServer = NewAuthHandler ''rest'' ''a'' [] 60 Map.empty,
                              apiTurnCfg = \<lparr>PublicIP = ''127.0.0.1'', Ports_TLS = 5349,
                                            Auth_Secret = ''a'', Auth_TTLSeconds = 60\<rparr>\<rparr>
                       ''b'' [''a''] 60))
         1700000030000000000 ''example.com'' ''edge:e1:1700000060''
         (HmacSha256B64 ''b'' ''edge:e1:1700000060'')"
proof -
  have r: "restAuth h 1700000030000000000 ''edge:e1:1700000060'' ''example.com'' =
             trySecrets (secret h # oldSecrets h) ''edge:e1:1700000060'' ''example.com''" for h
    by (simp add: restAuth_def eval_parse eval_time)
  show ?thesis
    by (simp add: postAdminSecrets_def handleRotateSecrets_def sighup_def authenticates_def
        AuthenticateRequest_def r NewAuthHandler_def UpdateSecrets_def GenerateAuthKey_def)
qed

section \<open>Validation of the peer type by the two issuing routes\<close>

lemma generate_shape:
  "generateTURNCredentials sec now pt pid t = (u, pw, e) \<Longrightarrow>
     u = pt @ '':'' @ pid @ '':'' @ FormatInt e \<and> pw = HmacSha256B64 sec u"
  by (auto simp add: generateTURNCredentials_def Let_def)

text \<open>
  Claim C10. \<open>POST /credentials\<close> answers 400 when the peer type is neither \<open>edge\<close> nor
  \<open>client\<close> (the empty peer type included) or when the peer id is empty.
  \<open>GET /ice-servers\<close> with a peer id that is not empty answers with a success envelope
  for any peer type: the TURN entry of the list carries the user name
  \<open>peer_type:peer_id:expiry\<close> with the peer type as it was given, and the password
  computed over that user name under the configured secret; without a \<open>peer_type\<close>
  parameter, or with an empty one, the peer type is \<open>client\<close>. It answers 400 when
  \<open>peer_id\<close> is absent or empty. (\<open>POST /credentials\<close> answers 200 for the peer types
  \<open>edge\<close> and \<open>client\<close> with a peer id that is not empty.)
\<close>

theorem credential_routes_peer_type:
  "(pt \<noteq> ''edge'' \<and> pt \<noteq> ''client'' \<or> pid = [] \<longrightarrow>
      resp_status (handleGenerateCredentials cfg now
        (Some \<lparr>req_PeerType = pt, req_PeerID = pid, req_TTL = t\<rparr>)) = 400)
   \<and> (pid \<noteq> [] \<and> pt \<noteq> [] \<longrightarrow>
        (\<exists>servers e u.
           handleGetICEServers cfg now [''peer_type'' \<mapsto> pt, ''peer_id'' \<mapsto> pid] =
             SuccessResp (ICEServersData servers e)
           \<and> u = pt @ '':'' @ pid @ '':'' @ FormatInt e
           \<and> ice_username (servers ! 1) = Some u
           \<and> ice_credential (servers ! 1) = Some (HmacSha256B64 (Auth_Secret cfg) u)))
   \<and> (pid \<noteq> [] \<longrightarrow>
        (\<exists>servers e u.
           handleGetICEServers cfg now [''peer_id'' \<mapsto> pid] =
             SuccessResp (ICEServersData servers e)
           \<and> u = ''client'' @ '':'' @ pid @ '':'' @ FormatInt e
           \<and> ice_username (servers ! 1) = Some u
           \<and> ice_credential (servers ! 1) = Some (HmacSha256B64 (Auth_Secret cfg) u)))
   \<and> handleGetICEServers cfg now [''peer_type'' \<mapsto> [], ''peer_id'' \<mapsto> pid] =
       handleGetICEServers cfg now [''peer_id'' \<mapsto> pid]
   \<and> resp_status (handleGetICEServers cfg now [''peer_type'' \<mapsto> pt]) = 400
   \<and> resp_status (handleGetICEServers cfg now [''peer_type'' \<mapsto> pt, ''peer_id'' \<mapsto> []]) = 400
   \<and> ((pt = ''edge'' \<or> pt = ''client'') \<and> pid \<noteq> [] \<longrightarrow>
        resp_status (handleGenerateCredentials cfg now
          (Some \<lparr>req_PeerType = pt, req_PeerID = pid, req_TTL = t\<rparr>)) = 200)"
proof -
  have bad: "resp_status (ErrorBadRequestResp m) = 400" for m
    by (simp add: ErrorBadRequestResp_def ErrorCodeResp_def ErrorResp_def)
  have A: "pt \<noteq> ''edge'' \<and> pt \<noteq> ''client'' \<or> pid = [] \<longrightarrow>
      resp_status (handleGenerateCredentials cfg now
        (Some \<lparr>req_PeerType = pt, req_PeerID = pid, req_TTL = t\<rparr>)) = 400"
    by (auto simp add: handleGenerateCredentials_def bad)
  have ice: "\<exists>servers e u.
           handleGetICEServers cfg now q = SuccessResp (ICEServersData servers e)
           \<and> u = ty @ '':'' @ pid @ '':'' @ FormatInt e
           \<and> ice_username (servers ! 1) = Some u
           \<and> ice_credential (servers ! 1) = Some (HmacSha256B64 (Auth_Secret cfg) u)"
    if "Query q ''peer_type'' ''client'' = ty" and "Query q ''peer_id'' [] = pid" and "pid \<noteq> []"
    for q ty
  proof -
    obtain u pw e where g:
      "generateTURNCredentials (Auth_Secret cfg) now ty pid (Auth_TTLSeconds cfg) = (u, pw, e)"
      by (metis prod_cases3)
    note sh = generate_shape [OF g]
    show ?thesis using that g sh
      by (cases "Ports_TLS cfg > 0") (simp_all add: handleGetICEServers_def Let_def SuccessResp_def)
  qed
  have B: "pid \<noteq> [] \<and> pt \<noteq> [] \<longrightarrow>
        (\<exists>servers e u.
           handleGetICEServers cfg now [''peer_type'' \<mapsto> pt, ''peer_id'' \<mapsto> pid] =
             SuccessResp (ICEServersData servers e)
           \<and> u = pt @ '':'' @ pid @ '':'' @ FormatInt e
           \<and> ice_username (servers ! 1) = Some u
           \<and> ice_credential (servers ! 1) = Some (HmacSha256B64 (Auth_Secret cfg) u))"
    by (intro impI ice) (simp_all add: Query_def)
  have C: "pid \<noteq> [] \<longrightarrow>
        (\<exists>servers e u.
           handleGetICEServers cfg now [''peer_id'' \<mapsto> pid] =
             SuccessResp (ICEServersData servers e)
           \<and> u = ''client'' @ '':'' @ pid @ '':'' @ FormatInt e
           \<and> ice_username (servers ! 1) = Some u
           \<and> ice_credential (servers ! 1) = Some (HmacSha256B64 (Auth_Secret cfg) u))"
    by (intro impI ice) (simp_all add: Query_def)
  have D: "resp_status (handleGetICEServers cfg now [''peer_type'' \<mapsto> pt]) = 400"
    "resp_status (handleGetICEServers cfg now [''peer_type'' \<mapsto> pt, ''peer_id'' \<mapsto> []]) = 400"
    by (simp_all add: handleGetICEServers_def Query_def bad Let_def)
  have E: "handleGetICEServers cfg now [''peer_type'' \<mapsto> [], ''peer_id'' \<mapsto> pid] =
       handleGetICEServers cfg now [''peer_id'' \<mapsto> pid]"
    by (simp add: handleGetICEServers_def Query_def)
  have F: "(pt = ''edge'' \<or> pt = ''client'') \<and> pid \<noteq> [] \<longrightarrow>
        resp_status (handleGenerateCredentials cfg now
          (Some \<lparr>req_PeerType = pt, req_PeerID = pid, req_TTL = t\<rparr>)) = 200"
    by (auto simp add: handleGenerateCredentials_def SuccessResp_def Let_def split: prod.splits)
  from A B C D E F show ?thesis by blast
qed

text \<open>
  The theorem for the peer id \<open>p1\<close>, with the peer type \<open>admin\<close> and, for the last
  part, with the peer type \<open>edge\<close>.
\<close>

theorem credential_routes_peer_type_witness:
  "(''admin'' \<noteq> ''edge'' \<and> ''admin'' \<noteq> ''client'') \<and> ''p1'' \<noteq> [] \<and> ''admin'' \<noteq> []
   \<and> resp_status (handleGenerateCredentials
         \<lparr>PublicIP = ''127.0.0.1'', Ports_TLS = 5349, Auth_Secret = ''s'', Auth_TTLSeconds = 60\<rparr>
         1700000000000000000
         (Some \<lparr>req_PeerType = ''admin'', req_PeerID = ''p1'', req_TTL = 0\<rparr>)) = 400
   \<and> (\<exists>servers e u.
         handleGetICEServers
           \<lparr>PublicIP = ''127.0.0.1'', Ports_TLS = 5349, Auth_Secret = ''s'', Auth_TTLSeconds = 60\<rparr>
           1700000000000000000 [''peer_type'' \<mapsto> ''admin'', ''peer_id'' \<mapsto> ''p1''] =
           SuccessResp (ICEServersData servers e)
         \<and> u = ''admin'' @ '':'' @ ''p1'' @ '':'' @ FormatInt e
         \<and> ice_username (servers ! 1) = Some u
         \<and> ice_credential (servers ! 1) = Some (HmacSha256B64 ''s'' u))
   \<and> (\<exists>servers e u.
         handleGetICEServers
           \<lparr>PublicIP = ''127.0.0.1'', Ports_TLS = 5349, Auth_Secret = ''s'', Auth_TTLSeconds = 60\<rparr>
           1700000000000000000 [''peer_id'' \<mapsto> ''p1''] =
           SuccessResp (ICEServersData servers e)
         \<and> u = ''client'' @ '':'' @ ''p1'' @ '':'' @ FormatInt e
         \<and> ice_username (servers ! 1) = Some u
         \<and> ice_credential (servers ! 1) = Some (HmacSha256B64 ''s'' u))
   \<and> resp_status (handleGenerateCredentials
         \<lparr>PublicIP = ''127.0.0.1'', Ports_TLS = 5349, Auth_Secret = ''s'', Auth_TTLSeconds = 60\<rparr>
         1700000000000000000
         (Some \<lparr>req_PeerType = ''edge'', req_PeerID = ''p1'', req_TTL = 0\<rparr>)) = 200"
  using credential_routes_peer_type [of "''admin''" "''p1''"
      "\<lparr>PublicIP = ''127.0.0.1'', Ports_TLS = 5349, Auth_Secret = ''s'', Auth_TTLSeconds = 60\<rparr>"
      1700000000000000000 0]
    credential_routes_peer_type [of "''edge''" "''p1''"
      "\<lparr>PublicIP = ''127.0.0.1'', Ports_TLS = 5349, Auth_Secret = ''s'', Auth_TTLSeconds = 60\<rparr>"
      1700000000000000000 0]
  by simp

section \<open>Admission and teardown of signaling connections\<close>

lemma IsZero_zeroTime: "IsZero zeroTime"
  by (simp add: IsZero_def)

lemma admit_snd: "snd (admit s ty ident e k t) = nextPtr s + 1"
  by (simp add: admit_def Let_def)

lemma admit_nextPtr: "nextPtr (fst (admit s ty ident e k t)) = nextPtr s + 2"
  by (simp add: admit_def Let_def AddPeer_def IsZero_zeroTime cancelAndClose_def split: option.splits)

lemma admit_connections:
  "connections (fst (admit s ty ident e k t)) = (connections s)(ident \<mapsto> nextPtr s + 1)"
  by (simp add: admit_def Let_def AddPeer_def IsZero_zeroTime cancelAndClose_def split: option.splits)

lemma admit_peers:
  "peers (fst (admit s ty ident e k t)) = (peers s)(ident \<mapsto> nextPtr s)"
  by (simp add: admit_def Let_def AddPeer_def IsZero_zeroTime cancelAndClose_def split: option.splits)

lemma admit_peerHeap:
  "peerHeap (fst (admit s ty ident e k t)) =
     (peerHeap s)(nextPtr s \<mapsto>
        \<lparr>peer_ID = ident, peer_Type = ty, peer_AccountID = [], peer_PublicKey = k,
         peer_EdgeID = e, peer_Connected = True, peer_LastPing = t, peer_CreatedAt = t\<rparr>)"
  by (simp add: admit_def Let_def AddPeer_def IsZero_zeroTime cancelAndClose_def split: option.splits)

lemma admit_connHeap_new:
  "connHeap (fst (admit s ty ident e k t)) (nextPtr s + 1) =
     Some \<lparr>pc_Peer = nextPtr s, pc_cancelled = False, pc_closed = False,
           pc_ClientDataChans = (ty = ''edge'')\<rparr>" if "connections s ident \<noteq> Some (nextPtr s + 1)"
  using that
  by (simp add: admit_def Let_def AddPeer_def IsZero_zeroTime cancelAndClose_def split: option.splits)

lemma admit_connHeap_old:
  "connHeap (fst (admit s ty ident e k t)) old =
     Some (pc\<lparr>pc_cancelled := True, pc_closed := True\<rparr>)"
  if "connections s ident = Some old" and "connHeap s old = Some pc" and "old \<noteq> nextPtr s + 1"
  using that
  by (simp add: admit_def Let_def AddPeer_def IsZero_zeroTime cancelAndClose_def split: option.splits)

lemma cleanup_peers: "peers (cleanup s c ident) ident = None"
  by (simp add: cleanup_def Let_def RemovePeer_def cancelAndClose_def split: option.splits)

lemma cleanup_connections: "connections (cleanup s c ident) ident = None"
  by (simp add: cleanup_def Let_def RemovePeer_def cancelAndClose_def split: option.splits)

lemma cleanup_connHeap_other:
  "c' \<noteq> c \<Longrightarrow> connHeap (cleanup s c ident) c' = connHeap s c'"
  by (simp add: cleanup_def Let_def RemovePeer_def cancelAndClose_def split: option.splits)

text \<open>
  Claim C4 at its failing sequence. In a hub whose registered connections were allocated
  before (their addresses lie below the allocator's next address), a peer id is admitted
  as connection \<open>a\<close> and then admitted again as connection \<open>b\<close>. The second admission
  cancels and closes \<open>a\<close> and registers \<open>b\<close>. When the handler of \<open>a\<close> then runs its
  deferred teardown, it removes the id from the registry and from the connection map,
  although the entries are those of \<open>b\<close>: afterwards neither holds an entry for the id,
  while the connection \<open>b\<close> is still open.
\<close>

theorem duplicate_admission_teardown:
  assumes "\<forall>c \<in> ran (connections s). c < nextPtr s"
  shows "(let (s1, a) = admit s ty ident e1 k1 t1;
              (s2, b) = admit s1 ty' ident e2 k2 t2;
              s3 = cleanup s2 a ident
          in connections s1 ident = Some a
             \<and> connections s2 ident = Some b \<and> a \<noteq> b
             \<and> map_option pc_cancelled (connHeap s2 a) = Some True
             \<and> map_option pc_closed (connHeap s2 a) = Some True
             \<and> map_option pc_closed (connHeap s3 b) = Some False
             \<and> peers s3 ident = None
             \<and> connections s3 ident = None)"
proof -
  obtain s1 a where A: "admit s ty ident e1 k1 t1 = (s1, a)" by (cases "admit s ty ident e1 k1 t1")
  obtain s2 b where B: "admit s1 ty' ident e2 k2 t2 = (s2, b)" by (cases "admit s1 ty' ident e2 k2 t2")
  have a: "a = nextPtr s + 1" using admit_snd [of s ty ident e1 k1 t1] A by simp
  have s1: "s1 = fst (admit s ty ident e1 k1 t1)" using A by simp
  have n1: "nextPtr s1 = nextPtr s + 2" unfolding s1 by (rule admit_nextPtr)
  have b': "b = nextPtr s1 + 1" using admit_snd [of s1 ty' ident e2 k2 t2] B by simp
  have b: "b = nextPtr s + 3" using b' n1 by simp
  have s2: "s2 = fst (admit s1 ty' ident e2 k2 t2)" using B by simp
  have c1: "connections s1 ident = Some a" unfolding s1 a by (simp add: admit_connections)
  have c2: "connections s2 ident = Some b" unfolding s2 b by (simp add: admit_connections n1)
  have "connections s ident \<noteq> Some (nextPtr s + 1)"
    using assms by (auto simp add: ran_def)
  then have ha: "connHeap s1 a = Some \<lparr>pc_Peer = nextPtr s, pc_cancelled = False, pc_closed = False,
           pc_ClientDataChans = (ty = ''edge'')\<rparr>"
    unfolding s1 a by (rule admit_connHeap_new)
  have "a \<noteq> nextPtr s1 + 1" using a n1 by simp
  from admit_connHeap_old [OF c1 ha this]
  have ha2: "connHeap s2 a = Some \<lparr>pc_Peer = nextPtr s, pc_cancelled = True, pc_closed = True,
           pc_ClientDataChans = (ty = ''edge'')\<rparr>"
    unfolding s2 by simp
  have "connections s1 ident \<noteq> Some (nextPtr s1 + 1)" using c1 a n1 by simp
  then have hb: "connHeap s2 b = Some \<lparr>pc_Peer = nextPtr s1, pc_cancelled = False, pc_closed = False,
           pc_ClientDataChans = (ty' = ''edge'')\<rparr>"
    unfolding s2 b' by (rule admit_connHeap_new)
  have ab: "a \<noteq> b" using a b by simp
  then have hb3: "connHeap (cleanup s2 a ident) b = connHeap s2 b"
    by (intro cleanup_connHeap_other) simp
  show ?thesis
    using A B c1 c2 ab ha2 hb hb3 cleanup_peers [of s2 a ident] cleanup_connections [of s2 a ident]
    by simp
qed

text \<open>The third boundary scenario: the edge \<open>E\<close> is admitted twice to a new hub.\<close>

theorem duplicate_admission_teardown_witness:
  "(let (s1, a) = admit newHub ''edge'' ''E'' [] [] 100;
        (s2, b) = admit s1 ''edge'' ''E'' [] [] 200;
        s3 = cleanup s2 a ''E''
    in connections s1 ''E'' = Some a
       \<and> connections s2 ''E'' = Some b \<and> a \<noteq> b
       \<and> map_option pc_cancelled (connHeap s2 a) = Some True
       \<and> map_option pc_closed (connHeap s2 a) = Some True
       \<and> map_option pc_closed (connHeap s3 b) = Some False
       \<and> peers s3 ''E'' = None
       \<and> connections s3 ''E'' = None)"
proof -
  have h: "\<forall>c \<in> ran (connections newHub). c < nextPtr newHub"
    by (simp add: newHub_def)
  from duplicate_admission_teardown [OF h, of "''edge''" "''E''" "[]" "[]" 100 "''edge''" "[]" "[]" 200]
  show ?thesis .
qed

section \<open>The creation time of a peer\<close>

lemma GetPeer_admit:
  "GetPeer (fst (admit s ty ident e k t)) ident =
     Some \<lparr>peer_ID = ident, peer_Type = ty, peer_AccountID = [], peer_PublicKey = k,
           peer_EdgeID = e, peer_Connected = True, peer_LastPing = t, peer_CreatedAt = t\<rparr>"
  by (simp add: GetPeer_def admit_peers admit_peerHeap)

lemma GetPeer_AddPeer:
  "peerHeap s p = Some peer \<Longrightarrow>
     GetPeer (AddPeer s p now) (peer_ID peer) =
       Some (peer\<lparr>peer_CreatedAt := (if IsZero (peer_CreatedAt peer) then now else peer_CreatedAt peer),
                  peer_Connected := True, peer_LastPing := now\<rparr>)"
  by (simp add: GetPeer_def AddPeer_def Let_def)

lemma UpdateLastPing_CreatedAt:
  "map_option peer_CreatedAt (GetPeer (UpdateLastPing s i now) j) =
     map_option peer_CreatedAt (GetPeer s j)"
  by (auto simp add: GetPeer_def UpdateLastPing_def split: option.splits)

text \<open>
  Claim C8, as amended. The creation time belongs to the peer descriptor. \<open>AddPeer\<close>
  sets it to the time of the addition when the descriptor carries none and keeps the
  value the caller supplies otherwise; \<open>UpdateLastPing\<close> leaves the creation time of
  every registered peer as it is. An admission through \<open>handleWebSocket\<close> builds a new
  descriptor without creation time, so after any admission, a duplicate one included,
  the creation time of the registered peer is the time of that admission.
\<close>

theorem created_at_per_descriptor:
  "(peerHeap s p = Some peer \<longrightarrow>
      map_option peer_CreatedAt (GetPeer (AddPeer s p now) (peer_ID peer)) =
        Some (if IsZero (peer_CreatedAt peer) then now else peer_CreatedAt peer))
   \<and> map_option peer_CreatedAt (GetPeer (UpdateLastPing s i now) j) =
        map_option peer_CreatedAt (GetPeer s j)
   \<and> map_option peer_CreatedAt (GetPeer (fst (admit s ty ident e k now)) ident) = Some now"
  using GetPeer_AddPeer [of s p peer now] UpdateLastPing_CreatedAt [of s i now j]
    GetPeer_admit [of s ty ident e k now]
  by simp

text \<open>
  The theorem in a hub where the edge \<open>E\<close> was admitted at time 100: its descriptor lies
  at address 0 and is added again, pinged, and admitted again at time 200.
\<close>

theorem created_at_per_descriptor_witness:
  "peerHeap (fst (admit newHub ''edge'' ''E'' [] [] 100)) 0 =
     Some \<lparr>peer_ID = ''E'', peer_Type = ''edge'', peer_AccountID = [], peer_PublicKey = [],
           peer_EdgeID = [], peer_Connected = True, peer_LastPing = 100, peer_CreatedAt = 100\<rparr>
   \<and> map_option peer_CreatedAt
        (GetPeer (AddPeer (fst (admit newHub ''edge'' ''E'' [] [] 100)) 0 200) ''E'') = Some 100
   \<and> map_option peer_CreatedAt
        (GetPeer (UpdateLastPing (fst (admit newHub ''edge'' ''E'' [] [] 100)) ''E'' 200) ''E'') =
      map_option peer_CreatedAt (GetPeer (fst (admit newHub ''edge'' ''E'' [] [] 100)) ''E'')
   \<and> map_option peer_CreatedAt
        (GetPeer (fst (admit (fst (admit newHub ''edge'' ''E'' [] [] 100)) ''edge'' ''E'' [] [] 200))
           ''E'') = Some 200"
proof -
  have h: "peerHeap (fst (admit newHub ''edge'' ''E'' [] [] 100)) 0 =
     Some \<lparr>peer_ID = ''E'', peer_Type = ''edge'', peer_AccountID = [], peer_PublicKey = [],
           peer_EdgeID = [], peer_Connected = True, peer_LastPing = 100, peer_CreatedAt = 100\<rparr>"
    by (simp add: admit_peerHeap newHub_def)
  have z: "\<not> IsZero 100" by (simp add: IsZero_def zeroTime_def unixToInternal_def nanosPerSecond_def)
  from created_at_per_descriptor [of "fst (admit newHub ''edge'' ''E'' [] [] 100)" 0
      "\<lparr>peer_ID = ''E'', peer_Type = ''edge'', peer_AccountID = [], peer_PublicKey = [],
        peer_EdgeID = [], peer_Connected = True, peer_LastPing = 100, peer_CreatedAt = 100\<rparr>"
      200 "''E''" "''E''" "''edge''" "''E''" "[]" "[]"] h z
  show ?thesis by simp
qed

text \<open>
  Claim C8 as stated fails: the edge \<open>E\<close> is admitted at time 100 and again at time 200;
  the registered peer's creation time is then 200, not the 100 of the first admission.
\<close>

theorem created_at_counterexample:
  "map_option peer_CreatedAt (GetPeer (fst (admit newHub ''edge'' ''E'' [] [] 100)) ''E'') = Some 100
   \<and> map_option peer_CreatedAt
        (GetPeer (fst (admit (fst (admit newHub ''edge'' ''E'' [] [] 100)) ''edge'' ''E'' [] [] 200))
           ''E'') = Some 200"
  by (simp add: GetPeer_admit)

section \<open>Ownership of services in a single sync\<close>

text \<open>
  An update of a record that another edge owns is refused and writes nothing; a deletion
  removes the record whoever owns it.
\<close>

lemma updateService_foreign:
  assumes "rows st (svc_ID service) = Some existing"
    and "svc_EdgeID existing \<noteq> svc_EdgeID service"
  shows "fst (updateService st now service) = Inl ''service belongs to different edge''"
    and "rows (snd (updateService st now service)) = rows st"
  using assms by (simp_all add: updateService_def GetEdgeService_def Let_def)

lemma updateService_accepted_owner:
  assumes "fst (updateService st now service) = Inr ()"
  shows "\<exists>existing. rows st (svc_ID service) = Some existing
           \<and> svc_EdgeID existing = svc_EdgeID service"
  using assms
  by (cases "rows st (svc_ID service)")
    (auto simp add: updateService_def GetEdgeService_def UpdateEdgeService_def Let_def
      split: if_splits)

lemma deleteService_any_owner:
  assumes "rows st ident = Some existing"
  shows "fst (deleteService st ident) = Inr ()"
    and "rows (snd (deleteService st ident)) = (rows st)(ident := None)"
  using assms by (simp_all add: deleteService_def DeleteEdgeService_def Let_def)

lemma validate_sentS1: "validateService (sentS1\<lparr>svc_EdgeID := ''E2''\<rparr>) = None"
  by (simp add: validateService_def sentS1_def nameRegex_MatchString_def nameChar_def less_eq_char_def)

lemma update_S1_by_E2:
  "updateService storageS1 200 (sentS1\<lparr>svc_EdgeID := ''E2''\<rparr>) =
     (Inl ''service belongs to different edge'', storageS1\<lparr>calls := [CallGet ''S1'']\<rparr>)"
  by (simp add: updateService_def GetEdgeService_def storageS1_def storedS1_def sentS1_def Let_def)

lemma delete_S1:
  "deleteService storageS1 ''S1'' = (Inr (), \<lparr>rows = Map.empty, calls = [CallDelete ''S1'']\<rparr>)"
  by (simp add: deleteService_def DeleteEdgeService_def storageS1_def Let_def)

text \<open>
  Claim C3 at its failing input. The storage holds \<open>S1\<close> with edge id \<open>E1\<close>, and the
  edge \<open>E2\<close> sends a \<open>service-sync\<close> for \<open>S1\<close>. With the operation \<open>updated\<close> the handler
  answers with the ownership error and the table is as before. With the operation
  \<open>deleted\<close> it acknowledges success and the record of \<open>E1\<close> is gone: \<open>deleteService\<close>
  does not look at the owner.
\<close>

theorem delete_ignores_ownership:
  "handleServiceSync storageS1 ''E2'' 200 (SyncMap ''updated'' (ServiceMap (Inr sentS1))) =
     ([sendServiceSyncAck ''S1'' [] ''error'' ''service belongs to different edge''],
      storageS1\<lparr>calls := [CallGet ''S1'']\<rparr>)
   \<and> handleServiceSync storageS1 ''E2'' 200 (SyncMap ''deleted'' (ServiceMap (Inr sentS1))) =
     ([sendServiceSyncAck ''S1'' ''S1'' ''success'' []],
      \<lparr>rows = Map.empty, calls = [CallDelete ''S1'']\<rparr>)
   \<and> map_option svc_EdgeID (rows storageS1 ''S1'') = Some ''E1''"
proof -
  have i: "svc_ID (sentS1\<lparr>svc_EdgeID := ''E2''\<rparr>) = ''S1''" by (simp add: sentS1_def)
  have o: "map_option svc_EdgeID (rows storageS1 ''S1'') = Some ''E1''"
    by (simp add: storageS1_def storedS1_def)
  show ?thesis
    by (simp add: handleServiceSync_def parseEdgeService_def validate_sentS1 update_S1_by_E2
        delete_S1 i o)
qed

section \<open>Batch sync\<close>

lemma create_S1_after:
  "createService (storageS1\<lparr>calls := [CallGet ''S1'']\<rparr>) 200 (sentS1\<lparr>svc_EdgeID := ''E2''\<rparr>) =
     (Inl ''failed to create service: failed to create service: UNIQUE constraint failed: edge_services.id'',
      storageS1\<lparr>calls := [CallGet ''S1'', CallCreate ''S1'']\<rparr>)"
  by (simp add: createService_def CreateEdgeService_def storageS1_def sentS1_def Let_def)

text \<open>
  Claim C6 at its failing input. The storage holds \<open>S1\<close> with edge id \<open>E1\<close>, and the edge
  \<open>E2\<close> sends a batch with the one entry \<open>S1\<close>. The update fails because the record
  belongs to another edge, not because it is missing; the handler calls
  \<open>CreateEdgeService\<close> all the same, as the sequence of storage calls shows. The creation
  fails on the primary key, the table stays as it was, and the summary counts no
  success.
\<close>

theorem batch_creates_after_ownership_failure:
  "handleServiceSyncBatch storageS1 ''E2'' 200 (BatchServices [ServiceMap (Inr sentS1)]) =
     ([\<lparr>msg_Type = ''service-sync-ack'', msg_Data = BatchAckData ''success'' ''Synced 0 services''\<rparr>],
      storageS1\<lparr>calls := [CallGet ''S1'', CallCreate ''S1'']\<rparr>)"
proof -
  have f: "FormatInt 0 = ''0''" by (simp add: eval_format)
  have l: "batchLoop storageS1 ''E2'' 200 [ServiceMap (Inr sentS1)] 0 0 =
             (storageS1\<lparr>calls := [CallGet ''S1'', CallCreate ''S1'']\<rparr>, 0, 1)"
    by (simp add: parseEdgeService_def validate_sentS1 update_S1_by_E2 create_S1_after)
  show ?thesis
    by (simp add: handleServiceSyncBatch_def maxBatchSize_def l f MessageTypeServiceSyncAck_def
        del: batchLoop.simps)
qed

text \<open>
  The other parts of the claim hold: every entry is counted as a success or as a failure,
  a batch of more than 1000 entries gets the one error message and writes nothing, and a
  batch within the limit gets the one summary with the number of successes.
\<close>

lemma batchLoop_counts:
  "batchLoop st fromID now xs sc fc = (st', sc', fc') \<Longrightarrow> sc' + fc' = sc + fc + length xs"
proof (induction xs arbitrary: st sc fc)
  case Nil
  then show ?case by simp
next
  case (Cons x xs)
  then show ?case
    by (auto simp add: Let_def split: serviceData.splits sum.splits option.splits prod.splits)
qed

lemma batch_over_limit:
  "length xs > 1000 \<Longrightarrow>
     handleServiceSyncBatch st fromID now (BatchServices xs) =
       ([sendError ''Batch size exceeds maximum of 1000 services''], st)"
proof -
  have f: "FormatInt 1000 = ''1000''" by (simp add: eval_format)
  assume "length xs > 1000"
  then show ?thesis by (simp add: handleServiceSyncBatch_def maxBatchSize_def f)
qed

lemma batch_within_limit:
  "length xs \<le> 1000 \<Longrightarrow>
     \<exists>st' n. handleServiceSyncBatch st fromID now (BatchServices xs) =
       ([\<lparr>msg_Type = ''service-sync-ack'',
          msg_Data = BatchAckData ''success'' (''Synced '' @ FormatInt (int n) @ '' services'')\<rparr>], st')
       \<and> n \<le> length xs"
proof -
  assume le: "length xs \<le> 1000"
  obtain st' sc fc where l: "batchLoop st fromID now xs 0 0 = (st', sc, fc)"
    by (metis prod_cases3)
  from batchLoop_counts [OF l] have "sc \<le> length xs" by simp
  with le l show ?thesis
    by (intro exI [of _ st'] exI [of _ sc])
      (simp add: handleServiceSyncBatch_def maxBatchSize_def MessageTypeServiceSyncAck_def)
qed

section \<open>Deleting a service that does not exist\<close>

text \<open>
  The storage half of the claim holds: \<open>DeleteEdgeService\<close> for an id that has no row
  fails with the error \<open>service not found\<close> and leaves the table as it is.
\<close>

lemma DeleteEdgeService_missing:
  assumes "rows st ident = None"
  shows "fst (DeleteEdgeService st ident) = Inl ''service not found''"
    and "rows (snd (DeleteEdgeService st ident)) = rows st"
  using assms by (simp_all add: DeleteEdgeService_def Let_def)

text \<open>
  Claim C7 at its failing input: \<open>DELETE /api/v1/services/svc-999\<close> on an empty table.
  The storage reports \<open>service not found\<close> and writes nothing, and the handler answers
  with status 500 and the message \<open>Failed to delete service\<close>: it sends every error of
  the deletion through \<open>ErrorInternalServerErrorResp\<close>. The response that the API keeps
  for an absent resource, \<open>ErrorNotFoundResp\<close> with status 404, is not used on this
  route.
\<close>

theorem delete_missing_service_reports_500:
  "DeleteEdgeService \<lparr>rows = Map.empty, calls = []\<rparr> ''svc-999'' =
     (Inl ''service not found'', \<lparr>rows = Map.empty, calls = [CallDelete ''svc-999'']\<rparr>)
   \<and> handleDeleteService \<lparr>rows = Map.empty, calls = []\<rparr> ''svc-999'' =
     (\<lparr>resp_status = 500, resp_Success = False, resp_Data = None,
       resp_Error = Some \<lparr>err_Code = 500, err_Message = ''Failed to delete service''\<rparr>\<rparr>,
      \<lparr>rows = Map.empty, calls = [CallDelete ''svc-999'']\<rparr>)
   \<and> resp_status (ErrorNotFoundResp ''Service not found'') = 404"
  by (simp add: DeleteEdgeService_def handleDeleteService_def Let_def
      ErrorInternalServerErrorResp_def ErrorNotFoundResp_def ErrorCodeResp_def ErrorResp_def)

end
